theory Spec2Isabelle
  imports Main "HOL-Library.Finite_Map"
begin

section \<open>Python values, errors and the store\<close>

text \<open>
  The values that travel through \<^verbatim>\<open>MongoCollectionDataNode\<close> (file
  \<^verbatim>\<open>taipy/core/data/mongo.py\<close>): data handed to \<^verbatim>\<open>_write\<close> and
  \<^verbatim>\<open>_append\<close>, stored documents, query values and filter documents. A \<^verbatim>\<open>dict\<close> with
  string keys is a finite map, so that equality of two \<open>PDict\<close> values is Python's \<^verbatim>\<open>==\<close> on
  dictionaries (the order of insertion plays no part). \<open>PObject c d\<close> is an instance of the
  user class named \<open>c\<close> whose \<^verbatim>\<open>__dict__\<close> is \<open>d\<close>. \<open>PObjectId n\<close> is an identity value of the
  kind the store hands out (an \<^verbatim>\<open>ObjectId\<close>), the \<open>n\<close> telling one from another.
\<close>

text \<open>
  Modelled from the spec: the enumerations \<^verbatim>\<open>Operator\<close> and \<^verbatim>\<open>JoinOperator\<close> are imported from
  \<^verbatim>\<open>..data.operator\<close>, which is not part of the source at hand. The specification names six
  comparison operators (EQUAL, NOT_EQUAL, GREATER_THAN, GREATER_OR_EQUAL, LESS_THAN,
  LESS_OR_EQUAL) and two join modes (AND, OR).
\<close>

datatype Operator = EQUAL | NOT_EQUAL | GREATER_THAN | GREATER_OR_EQUAL | LESS_THAN | LESS_OR_EQUAL

datatype JoinOperator = AND | OR

datatype pyval =
    PNone
  | PBool bool
  | PInt int
  | PStr string
  | PList "pyval list"
  | PTuple "pyval list"
  | PDict "(string, pyval) fmap"
  | POperator Operator
  | PJoinOperator JoinOperator
  | PObject string "(string, pyval) fmap"
  | PObjectId nat

text \<open>
  Every \<^verbatim>\<open>raise\<close> of the module and every exception its own expressions can throw.
  \<open>DependencyMissing\<close> is what \<^verbatim>\<open>_check_dependency_is_installed\<close> raises (the function is
  imported; the specification names the error). \<open>MissingRequiredProperty\<close> carries the
  missing keys; the text of the messages is not modelled.
\<close>

datatype error =
    DependencyMissing
  | MissingRequiredProperty "string list"
  | InvalidCustomDocument
  | KeyError string
  | NotImplementedError
  | AttributeError
  | TypeError
  | StoreError

text \<open>
  A class, as far as the adapter looks at one: calling it with keyword arguments
  (\<^verbatim>\<open>custom_document(**document)\<close>), and its attributes \<^verbatim>\<open>decode\<close> and \<^verbatim>\<open>encode\<close>.
  \<open>decode_attr\<close> is \<open>Some f\<close> when \<^verbatim>\<open>getattr(cls, "decode", None)\<close> is callable, \<open>f\<close> being
  what a call with one argument does, and \<open>None\<close> when the attribute is absent or is not
  callable; likewise \<open>encode_attr\<close>.
\<close>

record custom_class =
  class_name :: string
  constructor :: "(string, pyval) fmap \<Rightarrow> error + pyval"
  decode_attr :: "(pyval \<Rightarrow> error + pyval) option"
  encode_attr :: "(pyval \<Rightarrow> error + pyval) option"

text \<open>A value of the properties dictionary: an ordinary value, or a reference to a class.\<close>

datatype property = Val pyval | Class custom_class

type_synonym properties = "string \<rightharpoonup> property"

text \<open>
  Modelled from the spec: the collection handle belongs to the database driver, an external
  collaborator of which the module calls \<^verbatim>\<open>drop()\<close>, \<^verbatim>\<open>insert_many(data)\<close>, \<^verbatim>\<open>find()\<close> and
  \<^verbatim>\<open>find(query)\<close>. Following sections 3, 4.4 to 4.6 and 7 of the specification, a collection
  holds a sequence of stored documents; \<^verbatim>\<open>drop\<close> deletes all of them and \<^verbatim>\<open>find()\<close> fetches
  every document. An insertion adds documents behind the ones already there and leaves
  those alone, but what it adds is the store's business, and so are three fields of the
  handle:
  \<^item> \<open>stored_form n d\<close> is the document the store keeps for a given document \<open>d\<close> that
    becomes its \<open>n\<close>-th: the store's own rendering of \<open>d\<close>, with the identity field it
    assigns;
  \<^item> \<open>refusal held batch\<close> tells whether the store, holding \<open>held\<close>, takes the batch:
    \<open>None\<close> when it takes all of it, \<open>Some (e, k)\<close> when \<^verbatim>\<open>insert_many\<close> raises \<open>e\<close> with the
    first \<open>k\<close> documents of the batch added (insert failure, section 7);
  \<^item> \<open>find_query q held\<close> is what \<^verbatim>\<open>find(q)\<close> returns for a filter document \<open>q\<close>.
\<close>

record collection_handle =
  documents :: "pyval list"
  find_query :: "pyval \<Rightarrow> pyval list \<Rightarrow> error + pyval list"
  refusal :: "pyval list \<Rightarrow> pyval list \<Rightarrow> (error \<times> nat) option"
  stored_form :: "nat \<Rightarrow> pyval \<Rightarrow> pyval"

definition drop_collection :: "collection_handle \<Rightarrow> collection_handle" where
  "drop_collection c = c\<lparr>documents := []\<rparr>"

text \<open>The stored forms of a batch whose first document becomes the \<open>n\<close>-th of the collection.\<close>

fun store_documents :: "(nat \<Rightarrow> pyval \<Rightarrow> pyval) \<Rightarrow> nat \<Rightarrow> pyval list \<Rightarrow> pyval list" where
  "store_documents form n [] = []"
| "store_documents form n (d # ds) = form n d # store_documents form (Suc n) ds"

text \<open>
  \<^verbatim>\<open>insert_many(data)\<close>: the outcome of the call and the collection afterwards. When the
  store refuses, the exception is the outcome and only the documents it took before are
  added.
\<close>

definition insert_many :: "collection_handle \<Rightarrow> pyval list \<Rightarrow> (error + unit) \<times> collection_handle" where
  "insert_many c data =
     (let forms = store_documents (stored_form c) (length (documents c)) data
      in case refusal c (documents c) data of
           None \<Rightarrow> (Inr (), c\<lparr>documents := documents c @ forms\<rparr>)
         | Some (e, k) \<Rightarrow> (Inl e, c\<lparr>documents := documents c @ take k forms\<rparr>))"

definition find :: "collection_handle \<Rightarrow> pyval option \<Rightarrow> error + pyval list" where
  "find c query = (case query of None \<Rightarrow> Inr (documents c) | Some q \<Rightarrow> find_query c q (documents c))"

text \<open>
  A list comprehension \<^verbatim>\<open>[f(row) for row in rows]\<close> whose \<^verbatim>\<open>f\<close> may raise: the first
  exception ends the comprehension.
\<close>

fun list_comprehension :: "('a \<Rightarrow> error + 'b) \<Rightarrow> 'a list \<Rightarrow> error + 'b list" where
  "list_comprehension f [] = Inr []"
| "list_comprehension f (row # rows) =
     (case f row of
        Inl e \<Rightarrow> Inl e
      | Inr y \<Rightarrow> (case list_comprehension f rows of Inl e \<Rightarrow> Inl e | Inr ys \<Rightarrow> Inr (y # ys)))"

section \<open>The data node\<close>

text \<open>
  The fields of a constructed \<^verbatim>\<open>MongoCollectionDataNode\<close> that its methods use:
  \<^verbatim>\<open>self.collection\<close>, \<^verbatim>\<open>self.custom_document\<close>, \<^verbatim>\<open>self._decoder\<close> and \<^verbatim>\<open>self._encoder\<close>.
\<close>

record data_node =
  collection :: collection_handle
  custom_document :: property
  decoder :: "pyval \<Rightarrow> error + pyval"
  encoder :: "pyval \<Rightarrow> error + pyval"

text \<open>
  What construction takes from its surroundings: whether the driver package is installed,
  and the collection that the resolved client yields for the configured database and
  collection names. The constructor of the base class, the version manager and the
  connector are external; they are taken to return.
\<close>

record environment =
  pymongo_installed :: bool
  mongo_collection :: collection_handle

definition DB_NAME_KEY :: string where
  "DB_NAME_KEY = ''db_name''"

definition COLLECTION_KEY :: string where
  "COLLECTION_KEY = ''collection_name''"

definition CUSTOM_DOCUMENT_PROPERTY :: string where
  "CUSTOM_DOCUMENT_PROPERTY = ''custom_document''"

definition REQUIRED_PROPERTIES :: "string list" where
  "REQUIRED_PROPERTIES = [DB_NAME_KEY, COLLECTION_KEY]"

subsection \<open>The default codec\<close>

text \<open>
  \<^verbatim>\<open>_default_decoder\<close>: \<^verbatim>\<open>return self.custom_document(**document)\<close>. Unpacking with
  \<^verbatim>\<open>**\<close> needs a mapping; calling needs a class (construction has checked that).
\<close>

definition default_decoder :: "property \<Rightarrow> pyval \<Rightarrow> error + pyval" where
  "default_decoder custom_doc document =
     (case document of
        PDict kwargs \<Rightarrow> (case custom_doc of Class cls \<Rightarrow> constructor cls kwargs | Val v \<Rightarrow> Inl TypeError)
      | _ \<Rightarrow> Inl TypeError)"

text \<open>
  The \<^verbatim>\<open>__dict__\<close> of a member of an enumeration. A member has one, but its entries (the
  member's name and value among them) are laid down neither by the module nor by the
  specification, and differ between versions of Python: the dictionary is left unspecified.
\<close>

definition member_dict :: "pyval \<Rightarrow> (string, pyval) fmap" where
  "member_dict member = (SOME d. ''_name_'' |\<in>| fmdom d)"

text \<open>
  \<^verbatim>\<open>_default_encoder\<close>: \<^verbatim>\<open>return document_object.__dict__\<close>. Instances of user classes and
  members of enumerations have a \<^verbatim>\<open>__dict__\<close>; the other values of \<open>pyval\<close> have none.
\<close>

definition default_encoder :: "pyval \<Rightarrow> error + pyval" where
  "default_encoder document_object =
     (case document_object of
        PObject c d \<Rightarrow> Inr (PDict d)
      | POperator op \<Rightarrow> Inr (PDict (member_dict document_object))
      | PJoinOperator j \<Rightarrow> Inr (PDict (member_dict document_object))
      | _ \<Rightarrow> Inl AttributeError)"

subsection \<open>Construction\<close>

text \<open>\<^verbatim>\<open>_check_custom_document\<close>: raises unless \<^verbatim>\<open>isclass(custom_document)\<close>.\<close>

definition check_custom_document :: "property \<Rightarrow> error + unit" where
  "check_custom_document custom_doc =
     (case custom_doc of Class cls \<Rightarrow> Inr () | Val v \<Rightarrow> Inl InvalidCustomDocument)"

text \<open>\<^verbatim>\<open>getattr(self.custom_document, name, None)\<close> followed by the test \<^verbatim>\<open>callable\<close>.\<close>

definition callable_decode :: "property \<Rightarrow> (pyval \<Rightarrow> error + pyval) option" where
  "callable_decode custom_doc = (case custom_doc of Class cls \<Rightarrow> decode_attr cls | Val v \<Rightarrow> None)"

definition callable_encode :: "property \<Rightarrow> (pyval \<Rightarrow> error + pyval) option" where
  "callable_encode custom_doc = (case custom_doc of Class cls \<Rightarrow> encode_attr cls | Val v \<Rightarrow> None)"

text \<open>
  \<^verbatim>\<open>__init__\<close>, in the order of the source: the dependency check, \<^verbatim>\<open>properties = {}\<close> for
  \<^verbatim>\<open>None\<close>, the required keys, \<^verbatim>\<open>properties["custom_document"]\<close> (a \<^verbatim>\<open>KeyError\<close> when the key
  is absent) with its check, the collection handle, and the choice of decoder and encoder.
\<close>

definition init :: "environment \<Rightarrow> properties option \<Rightarrow> error + data_node" where
  "init env properties_arg =
     (if \<not> pymongo_installed env then Inl DependencyMissing
      else
        let properties = (case properties_arg of None \<Rightarrow> Map.empty | Some p \<Rightarrow> p);
            missing = filter (\<lambda>k. properties k = None) REQUIRED_PROPERTIES
        in if missing \<noteq> [] then Inl (MissingRequiredProperty missing)
           else
             (case properties CUSTOM_DOCUMENT_PROPERTY of
                None \<Rightarrow> Inl (KeyError CUSTOM_DOCUMENT_PROPERTY)
              | Some custom_doc \<Rightarrow>
                  (case check_custom_document custom_doc of
                     Inl e \<Rightarrow> Inl e
                   | Inr u \<Rightarrow>
                       Inr \<lparr> collection = mongo_collection env,
                             custom_document = custom_doc,
                             decoder = (case callable_decode custom_doc of
                                          Some custom_decoder \<Rightarrow> custom_decoder
                                        | None \<Rightarrow> default_decoder custom_doc),
                             encoder = (case callable_encode custom_doc of
                                          Some custom_encoder \<Rightarrow> custom_encoder
                                        | None \<Rightarrow> default_encoder) \<rparr>)))"

subsection \<open>Reading\<close>

text \<open>
  The argument \<^verbatim>\<open>operators\<close> of \<^verbatim>\<open>filter\<close> and \<^verbatim>\<open>_read_by_query\<close>, annotated
  \<^verbatim>\<open>Optional[Union[List, Tuple]]\<close>: \<^verbatim>\<open>None\<close>, a list of conditions, or one condition that is
  not inside a list. A condition is a triple \<^verbatim>\<open>(key, value, operator)\<close> with a string key;
  the operator and the join operator are arbitrary values, compared with \<^verbatim>\<open>==\<close> against the
  members of the enumerations.
\<close>

type_synonym condition = "string \<times> pyval \<times> pyval"

datatype operators = NoOperators | ConditionList "condition list" | BareCondition condition

text \<open>The dictionary display \<^verbatim>\<open>{key: value}\<close>.\<close>

definition dict1 :: "string \<Rightarrow> pyval \<Rightarrow> pyval" where
  "dict1 key val = PDict (fmupd key val fmempty)"

text \<open>
  The loop \<^verbatim>\<open>for key, value, operator in operators\<close> of \<^verbatim>\<open>_read_by_query\<close>; the second
  argument is the list \<^verbatim>\<open>conditions\<close> built so far. The chain of \<^verbatim>\<open>if\<close>/\<^verbatim>\<open>elif\<close> has no
  \<^verbatim>\<open>else\<close>.
\<close>

fun conditions_loop :: "condition list \<Rightarrow> pyval list \<Rightarrow> pyval list" where
  "conditions_loop [] conditions = conditions"
| "conditions_loop ((key, val, operator) # rest) conditions =
     conditions_loop rest
       (if operator = POperator EQUAL then conditions @ [dict1 key val]
        else if operator = POperator NOT_EQUAL then conditions @ [dict1 key (dict1 ''$ne'' val)]
        else if operator = POperator GREATER_THAN then conditions @ [dict1 key (dict1 ''$gt'' val)]
        else if operator = POperator GREATER_OR_EQUAL then conditions @ [dict1 key (dict1 ''$gte'' val)]
        else if operator = POperator LESS_THAN then conditions @ [dict1 key (dict1 ''$lt'' val)]
        else if operator = POperator LESS_OR_EQUAL then conditions @ [dict1 key (dict1 ''$lte'' val)]
        else conditions)"

text \<open>
  \<^verbatim>\<open>_read_by_query\<close> up to its calls of \<^verbatim>\<open>find\<close>: the result is the argument of the call,
  \<open>None\<close> for \<^verbatim>\<open>find()\<close> and \<open>Some query\<close> for \<^verbatim>\<open>find(query)\<close>. \<^verbatim>\<open>not operators\<close> holds of
  \<^verbatim>\<open>None\<close> and of the empty list; a triple is not empty.
\<close>

definition query_of :: "operators \<Rightarrow> pyval \<Rightarrow> error + pyval option" where
  "query_of ops join_operator =
     (if ops = NoOperators \<or> ops = ConditionList [] then Inr None
      else
        let operators = (case ops of ConditionList cs \<Rightarrow> cs | BareCondition c \<Rightarrow> [c] | NoOperators \<Rightarrow> []);
            conditions = conditions_loop operators []
        in if join_operator = PJoinOperator AND then Inr (Some (dict1 ''$and'' (PList conditions)))
           else if join_operator = PJoinOperator OR then Inr (Some (dict1 ''$or'' (PList conditions)))
           else Inl NotImplementedError)"

definition read_by_query :: "data_node \<Rightarrow> operators \<Rightarrow> pyval \<Rightarrow> error + pyval list" where
  "read_by_query self ops join_operator =
     (case query_of ops join_operator of
        Inl e \<Rightarrow> Inl e
      | Inr query \<Rightarrow> find (collection self) query)"

text \<open>\<^verbatim>\<open>filter\<close>: \<^verbatim>\<open>[self._decoder(row) for row in cursor]\<close> over the rows of the query.\<close>

definition filter_node :: "data_node \<Rightarrow> operators \<Rightarrow> pyval \<Rightarrow> error + pyval list" where
  "filter_node self ops join_operator =
     (case read_by_query self ops join_operator of
        Inl e \<Rightarrow> Inl e
      | Inr cursor \<Rightarrow> list_comprehension (decoder self) cursor)"

text \<open>\<^verbatim>\<open>_read\<close>: the same with the default arguments of \<^verbatim>\<open>_read_by_query\<close>.\<close>

definition read_node :: "data_node \<Rightarrow> error + pyval list" where
  "read_node self =
     (case read_by_query self NoOperators (PJoinOperator AND) of
        Inl e \<Rightarrow> Inl e
      | Inr cursor \<Rightarrow> list_comprehension (decoder self) cursor)"

subsection \<open>Writing\<close>

text \<open>
  The methods that change the collection return the outcome of the call (\<open>Inr ()\<close> for a
  normal return, \<open>Inl e\<close> for an exception) together with the data node afterwards, so that
  what an exception leaves behind is part of the model: a write that drops the collection
  and then fails during the insertion leaves the collection without its old documents.
\<close>

definition isinstance_dict :: "pyval \<Rightarrow> bool" where
  "isinstance_dict v = (case v of PDict d \<Rightarrow> True | _ \<Rightarrow> False)"

text \<open>\<^verbatim>\<open>if not isinstance(data, list): data = [data]\<close>.\<close>

definition as_list :: "pyval \<Rightarrow> pyval list" where
  "as_list data = (case data of PList xs \<Rightarrow> xs | _ \<Rightarrow> [data])"

text \<open>
  \<^verbatim>\<open>_insert_dicts\<close>: an optional \<^verbatim>\<open>drop\<close>, then \<^verbatim>\<open>insert_many\<close>, whose exception, if any,
  goes on to the caller with the drop already done.
\<close>

definition insert_dicts :: "data_node \<Rightarrow> pyval list \<Rightarrow> bool \<Rightarrow> (error + unit) \<times> data_node" where
  "insert_dicts self data drop_flag =
     (let c = (if drop_flag then drop_collection (collection self) else collection self)
      in case insert_many c data of (outcome, c') \<Rightarrow> (outcome, self\<lparr>collection := c'\<rparr>))"

text \<open>
  \<^verbatim>\<open>_append\<close>. The test is on the first element, \<^verbatim>\<open>data[0]\<close>; the comprehension over the
  encoder is evaluated before \<^verbatim>\<open>_insert_dicts\<close> is entered.
\<close>

definition append_node :: "data_node \<Rightarrow> pyval \<Rightarrow> (error + unit) \<times> data_node" where
  "append_node self data_arg =
     (let data = as_list data_arg
      in if length data = 0 then (Inr (), self)
         else if isinstance_dict (hd data) then insert_dicts self data False
         else (case list_comprehension (encoder self) data of
                 Inl e \<Rightarrow> (Inl e, self)
               | Inr encoded \<Rightarrow> insert_dicts self encoded False))"

text \<open>\<^verbatim>\<open>_write\<close>: as \<^verbatim>\<open>_append\<close>, with a drop on every path that reaches the store.\<close>

definition write_node :: "data_node \<Rightarrow> pyval \<Rightarrow> (error + unit) \<times> data_node" where
  "write_node self data_arg =
     (let data = as_list data_arg
      in if length data = 0 then (Inr (), self\<lparr>collection := drop_collection (collection self)\<rparr>)
         else if isinstance_dict (hd data) then insert_dicts self data True
         else (case list_comprehension (encoder self) data of
                 Inl e \<Rightarrow> (Inl e, self)
               | Inr encoded \<Rightarrow> insert_dicts self encoded True))"

section \<open>Notions of the specification\<close>

text \<open>
  The predicate the specification assigns to one condition with a supported operator
  (section 4.2): EQUAL is equality on the field, the other five are the store's
  \<^verbatim>\<open>$ne\<close>, \<^verbatim>\<open>$gt\<close>, \<^verbatim>\<open>$gte\<close>, \<^verbatim>\<open>$lt\<close> and \<^verbatim>\<open>$lte\<close> on the field. This definition follows
  the specification, not the source; it is what \<open>conditions_loop\<close> is compared with.
\<close>

fun comparison_predicate :: "string \<Rightarrow> pyval \<Rightarrow> Operator \<Rightarrow> pyval" where
  "comparison_predicate field v EQUAL = dict1 field v"
| "comparison_predicate field v NOT_EQUAL = dict1 field (dict1 ''$ne'' v)"
| "comparison_predicate field v GREATER_THAN = dict1 field (dict1 ''$gt'' v)"
| "comparison_predicate field v GREATER_OR_EQUAL = dict1 field (dict1 ''$gte'' v)"
| "comparison_predicate field v LESS_THAN = dict1 field (dict1 ''$lt'' v)"
| "comparison_predicate field v LESS_OR_EQUAL = dict1 field (dict1 ''$lte'' v)"

text \<open>What one condition adds to the filter: its predicate, or nothing.\<close>

definition predicates_of :: "condition \<Rightarrow> pyval list" where
  "predicates_of c =
     (case c of (field, v, operator) \<Rightarrow>
        (case operator of POperator op \<Rightarrow> [comparison_predicate field v op] | _ \<Rightarrow> []))"

text \<open>The six supported comparison operators, as values.\<close>

definition supported_operators :: "pyval list" where
  "supported_operators =
     map POperator [EQUAL, NOT_EQUAL, GREATER_THAN, GREATER_OR_EQUAL, LESS_THAN, LESS_OR_EQUAL]"

text \<open>
  The kind of custom document type the round-trip law speaks of: a class whose constructor
  accepts exactly the keyword parameters \<open>params\<close> and assigns each keyword argument to the
  field of the same name, one parameter after the other. A call with a missing or an
  unexpected keyword is a \<^verbatim>\<open>TypeError\<close>. This definition follows the wording of the law;
  the module itself defines no such class.
\<close>

fun assign_fields :: "string list \<Rightarrow> (string, pyval) fmap \<Rightarrow> (string, pyval) fmap \<Rightarrow> (string, pyval) fmap" where
  "assign_fields [] kwargs attrs = attrs"
| "assign_fields (p # ps) kwargs attrs =
     assign_fields ps kwargs (case fmlookup kwargs p of Some v \<Rightarrow> fmupd p v attrs | None \<Rightarrow> attrs)"

definition keyword_constructor :: "string \<Rightarrow> string list \<Rightarrow> (string, pyval) fmap \<Rightarrow> error + pyval" where
  "keyword_constructor name params kwargs =
     (if fmdom kwargs = fset_of_list params
      then Inr (PObject name (assign_fields params kwargs fmempty))
      else Inl TypeError)"

section \<open>Concrete stores, classes and data nodes\<close>

text \<open>
  One store, for the instances below. It does what the driver does with the batches these
  instances hand it, and is cautious otherwise:
  \<^item> a batch that is empty or holds something that is not a dictionary raises \<^verbatim>\<open>TypeError\<close>
    and nothing is added;
  \<^item> a document is taken only if each of its values is \<^verbatim>\<open>None\<close>, a boolean, a string, an
    identity value or an integer of at most eight bytes; a batch with any other document
    is refused as a whole;
  \<^item> a document without the field \<^verbatim>\<open>_id\<close> is stored with that field set to a fresh identity
    value, a document with the field is stored as it is;
  \<^item> the documents are added in order, and the first whose \<^verbatim>\<open>_id\<close> is already in the
    collection stops the insertion with an exception.
\<close>

definition scalar :: "pyval \<Rightarrow> bool" where
  "scalar v =
     (case v of
        PNone \<Rightarrow> True
      | PBool b \<Rightarrow> True
      | PStr s \<Rightarrow> True
      | PObjectId n \<Rightarrow> True
      | PInt i \<Rightarrow> - (2 ^ 63) \<le> i \<and> i < 2 ^ 63
      | _ \<Rightarrow> False)"

definition plain_document :: "pyval \<Rightarrow> bool" where
  "plain_document doc = (case doc of PDict d \<Rightarrow> fmpred (\<lambda>k v. scalar v) d | _ \<Rightarrow> False)"

definition with_id :: "nat \<Rightarrow> pyval \<Rightarrow> pyval" where
  "with_id n doc =
     (case doc of
        PDict d \<Rightarrow> (if ''_id'' |\<in>| fmdom d then doc else PDict (fmupd ''_id'' (PObjectId n) d))
      | _ \<Rightarrow> doc)"

definition identity_of :: "pyval \<Rightarrow> pyval option" where
  "identity_of doc = (case doc of PDict d \<Rightarrow> fmlookup d ''_id'' | _ \<Rightarrow> None)"

text \<open>How many leading documents carry an identity that is not taken yet.\<close>

fun unique_prefix :: "pyval option list \<Rightarrow> pyval list \<Rightarrow> nat" where
  "unique_prefix taken [] = 0"
| "unique_prefix taken (doc # docs) =
     (if identity_of doc \<in> set taken then 0
      else Suc (unique_prefix (identity_of doc # taken) docs))"

definition driver_refusal :: "pyval list \<Rightarrow> pyval list \<Rightarrow> (error \<times> nat) option" where
  "driver_refusal held batch =
     (if batch = [] \<or> \<not> list_all isinstance_dict batch then Some (TypeError, 0)
      else if \<not> list_all plain_document batch then Some (StoreError, 0)
      else
        let k = unique_prefix (map identity_of held) (store_documents with_id (length held) batch)
        in if k < length batch then Some (StoreError, k) else None)"

text \<open>
  A class \<^verbatim>\<open>Person\<close> with the constructor \<^verbatim>\<open>__init__(self, name, age)\<close> and no codec of its
  own, a collection that already holds one document, and the data node constructed over
  them. A filtered \<^verbatim>\<open>find\<close> on the collections of this section is answered with a failure: no
  statement below depends on it.
\<close>

definition person_class :: custom_class where
  "person_class =
     \<lparr> class_name = ''Person'',
       constructor = keyword_constructor ''Person'' [''name'', ''age''],
       decode_attr = None,
       encode_attr = None \<rparr>"

definition ann :: "(string, pyval) fmap" where
  "ann = fmap_of_list [(''name'', PStr ''Ann''), (''age'', PInt 41)]"

definition bob :: "(string, pyval) fmap" where
  "bob = fmap_of_list [(''age'', PInt 30), (''name'', PStr ''Bob'')]"

definition people :: collection_handle where
  "people =
     \<lparr> documents = [PDict ann],
       find_query = (\<lambda>q ds. Inl StoreError),
       refusal = driver_refusal,
       stored_form = with_id \<rparr>"

definition installed :: environment where
  "installed = \<lparr> pymongo_installed = True, mongo_collection = people \<rparr>"

definition person_properties :: properties where
  "person_properties =
     [DB_NAME_KEY \<mapsto> Val (PStr ''registry''),
      COLLECTION_KEY \<mapsto> Val (PStr ''people''),
      CUSTOM_DOCUMENT_PROPERTY \<mapsto> Class person_class]"

definition person_node :: data_node where
  "person_node =
     \<lparr> collection = people,
       custom_document = Class person_class,
       decoder = default_decoder (Class person_class),
       encoder = default_encoder \<rparr>"

text \<open>
  A class \<^verbatim>\<open>Guest\<close> with the constructor \<^verbatim>\<open>__init__(self, name, age, **extra)\<close>, which sets
  the fields \<^verbatim>\<open>name\<close> and \<^verbatim>\<open>age\<close> and lets any further keyword pass, the identity field of a
  stored document among them; no codec of its own. Its collection holds one document, with
  the identity the store gave it.
\<close>

definition guest_init :: "(string, pyval) fmap \<Rightarrow> error + pyval" where
  "guest_init kwargs =
     (if ''name'' |\<in>| fmdom kwargs \<and> ''age'' |\<in>| fmdom kwargs
      then Inr (PObject ''Guest'' (assign_fields [''name'', ''age''] kwargs fmempty))
      else Inl TypeError)"

definition guest_class :: custom_class where
  "guest_class =
     \<lparr> class_name = ''Guest'', constructor = guest_init, decode_attr = None, encode_attr = None \<rparr>"

definition guests :: collection_handle where
  "guests =
     \<lparr> documents = [PDict (fmupd ''_id'' (PObjectId 0) ann)],
       find_query = (\<lambda>q ds. Inl StoreError),
       refusal = driver_refusal,
       stored_form = with_id \<rparr>"

definition guest_node :: data_node where
  "guest_node =
     \<lparr> collection = guests,
       custom_document = Class guest_class,
       decoder = default_decoder (Class guest_class),
       encoder = default_encoder \<rparr>"

text \<open>
  The same class with a static method \<^verbatim>\<open>encode\<close> that returns a dictionary as it is and the
  \<^verbatim>\<open>__dict__\<close> of anything else, and the data node that construction gives for it: the
  method takes the place of the default encoder.
\<close>

definition lenient_encode :: "pyval \<Rightarrow> error + pyval" where
  "lenient_encode v = (if isinstance_dict v then Inr v else default_encoder v)"

definition lenient_class :: custom_class where
  "lenient_class = guest_class\<lparr>encode_attr := Some lenient_encode\<rparr>"

definition lenient_node :: data_node where
  "lenient_node =
     \<lparr> collection = guests,
       custom_document = Class lenient_class,
       decoder = default_decoder (Class lenient_class),
       encoder = lenient_encode \<rparr>"

section \<open>Auxiliary facts\<close>

lemma key_names_distinct:
  "DB_NAME_KEY \<noteq> COLLECTION_KEY" "DB_NAME_KEY \<noteq> CUSTOM_DOCUMENT_PROPERTY"
  "COLLECTION_KEY \<noteq> CUSTOM_DOCUMENT_PROPERTY" "COLLECTION_KEY \<noteq> DB_NAME_KEY"
  "CUSTOM_DOCUMENT_PROPERTY \<noteq> DB_NAME_KEY" "CUSTOM_DOCUMENT_PROPERTY \<noteq> COLLECTION_KEY"
  by (simp_all add: DB_NAME_KEY_def COLLECTION_KEY_def CUSTOM_DOCUMENT_PROPERTY_def)

lemma init_person_node: "init installed (Some person_properties) = Inr person_node"
  by (simp add: init_def installed_def person_properties_def person_node_def
      REQUIRED_PROPERTIES_def key_names_distinct check_custom_document_def
      callable_decode_def callable_encode_def person_class_def)

lemma read_by_query_no_operators:
  "read_by_query self NoOperators j = Inr (documents (collection self))"
  by (simp add: read_by_query_def query_of_def find_def)

lemma read_by_query_empty_list:
  "read_by_query self (ConditionList []) j = Inr (documents (collection self))"
  by (simp add: read_by_query_def query_of_def find_def)

lemma read_node_documents:
  "read_node self = list_comprehension (decoder self) (documents (collection self))"
  by (simp add: read_node_def read_by_query_no_operators)

lemma fmlookup_assign_fields:
  "fmlookup (assign_fields ps kwargs attrs) k =
     (if k \<in> set ps \<and> fmlookup kwargs k \<noteq> None then fmlookup kwargs k else fmlookup attrs k)"
  by (induction ps arbitrary: attrs) (auto split: option.splits)

lemma assign_fields_all:
  assumes "fmdom kwargs = fset_of_list ps"
  shows "assign_fields ps kwargs fmempty = kwargs"
proof (rule fmap_ext)
  fix k
  show "fmlookup (assign_fields ps kwargs fmempty) k = fmlookup kwargs k"
  proof (cases "fmlookup kwargs k")
    case None
    then show ?thesis by (simp add: fmlookup_assign_fields)
  next
    case (Some v)
    then have "k |\<in>| fmdom kwargs" by (rule fmdomI)
    with assms have "k \<in> set ps" by (simp add: fset_of_list.rep_eq)
    with Some show ?thesis by (simp add: fmlookup_assign_fields)
  qed
qed

lemma conditions_loop_step: "conditions_loop [c] acc = acc @ predicates_of c"
proof (cases c)
  case (fields field v operator)
  show ?thesis
  proof (cases operator)
    case (POperator op)
    with fields show ?thesis by (cases op) (simp_all add: predicates_of_def)
  qed (simp_all add: fields predicates_of_def)
qed

lemma conditions_loop_concat:
  "conditions_loop cs acc = acc @ concat (map predicates_of cs)"
proof (induction cs arbitrary: acc)
  case Nil
  show ?case by simp
next
  case (Cons c cs)
  obtain field v operator where c: "c = (field, v, operator)" by (cases c) auto
  have "conditions_loop (c # cs) acc = conditions_loop cs (conditions_loop [c] acc)"
    by (simp add: c)
  then show ?case by (simp add: Cons.IH conditions_loop_step)
qed

section \<open>Construction fails on incomplete or ill-typed properties\<close>

text \<open>
  Claim C4. Where the driver is installed, construction over a properties mapping that lacks
  \<^verbatim>\<open>db_name\<close> or \<^verbatim>\<open>collection_name\<close> fails with \<open>MissingRequiredProperty\<close> (carrying the
  required keys that are absent); so does construction without any properties mapping.
\<close>

theorem init_missing_required_property:
  assumes "pymongo_installed env"
    and "properties DB_NAME_KEY = None \<or> properties COLLECTION_KEY = None"
  shows "init env (Some properties)
           = Inl (MissingRequiredProperty (filter (\<lambda>k. properties k = None) REQUIRED_PROPERTIES))
       \<and> init env None = Inl (MissingRequiredProperty REQUIRED_PROPERTIES)"
  using assms by (auto simp: init_def REQUIRED_PROPERTIES_def Let_def)

theorem init_missing_required_property_witness:
  "init installed (Some [DB_NAME_KEY \<mapsto> Val (PStr ''registry''), CUSTOM_DOCUMENT_PROPERTY \<mapsto> Class person_class])
     = Inl (MissingRequiredProperty [COLLECTION_KEY])"
proof -
  let ?p = "[DB_NAME_KEY \<mapsto> Val (PStr ''registry''), CUSTOM_DOCUMENT_PROPERTY \<mapsto> Class person_class]"
  have i: "pymongo_installed installed"
    by (simp add: installed_def)
  have m: "?p DB_NAME_KEY = None \<or> ?p COLLECTION_KEY = None"
    by (simp add: key_names_distinct)
  have f: "filter (\<lambda>k. ?p k = None) REQUIRED_PROPERTIES = [COLLECTION_KEY]"
    by (simp add: REQUIRED_PROPERTIES_def key_names_distinct)
  from init_missing_required_property [OF i m]
  have "init installed (Some ?p)
          = Inl (MissingRequiredProperty (filter (\<lambda>k. ?p k = None) REQUIRED_PROPERTIES))"
    by (rule conjunct1)
  then show ?thesis
    unfolding f .
qed

text \<open>
  Claim C5. The property \<^verbatim>\<open>custom_document\<close> is required: construction over a properties
  mapping without that key produces no data node but an error, whatever else the mapping
  holds; when \<^verbatim>\<open>db_name\<close> and \<^verbatim>\<open>collection_name\<close> are present (and the driver is installed)
  the error is the \<^verbatim>\<open>KeyError\<close> of the lookup \<^verbatim>\<open>properties["custom_document"]\<close>.
\<close>

theorem init_without_custom_document:
  assumes "properties CUSTOM_DOCUMENT_PROPERTY = None"
  shows "(\<exists>e. init env (Some properties) = Inl e)
       \<and> (pymongo_installed env \<and> properties DB_NAME_KEY \<noteq> None \<and> properties COLLECTION_KEY \<noteq> None
            \<longrightarrow> init env (Some properties) = Inl (KeyError CUSTOM_DOCUMENT_PROPERTY))"
  using assms by (auto simp: init_def REQUIRED_PROPERTIES_def Let_def)

theorem init_without_custom_document_witness:
  "init installed (Some [DB_NAME_KEY \<mapsto> Val (PStr ''registry''), COLLECTION_KEY \<mapsto> Val (PStr ''people'')])
     = Inl (KeyError ''custom_document'')"
proof -
  let ?p = "[DB_NAME_KEY \<mapsto> Val (PStr ''registry''), COLLECTION_KEY \<mapsto> Val (PStr ''people'')]"
  have c: "?p CUSTOM_DOCUMENT_PROPERTY = None"
    using key_names_distinct by simp
  have k: "pymongo_installed installed \<and> ?p DB_NAME_KEY \<noteq> None \<and> ?p COLLECTION_KEY \<noteq> None"
    by (simp add: installed_def key_names_distinct)
  have "init installed (Some ?p) = Inl (KeyError CUSTOM_DOCUMENT_PROPERTY)"
    using init_without_custom_document
      [of "[DB_NAME_KEY \<mapsto> Val (PStr ''registry''), COLLECTION_KEY \<mapsto> Val (PStr ''people'')]" installed]
      c k by blast
  then show ?thesis
    by (simp add: CUSTOM_DOCUMENT_PROPERTY_def)
qed

text \<open>
  Claim C6. Where the driver is installed, construction over a properties mapping that
  contains \<^verbatim>\<open>db_name\<close> and \<^verbatim>\<open>collection_name\<close> and whose \<^verbatim>\<open>custom_document\<close> is a value that
  is not a class fails with \<open>InvalidCustomDocument\<close>.
\<close>

theorem init_invalid_custom_document:
  assumes "pymongo_installed env"
    and "properties DB_NAME_KEY \<noteq> None"
    and "properties COLLECTION_KEY \<noteq> None"
    and "properties CUSTOM_DOCUMENT_PROPERTY = Some (Val v)"
  shows "init env (Some properties) = Inl InvalidCustomDocument"
  using assms by (auto simp: init_def REQUIRED_PROPERTIES_def Let_def check_custom_document_def)

theorem init_invalid_custom_document_witness:
  "init installed (Some (person_properties(CUSTOM_DOCUMENT_PROPERTY \<mapsto> Val (PStr ''Person''))))
     = Inl InvalidCustomDocument"
proof -
  let ?p = "person_properties(CUSTOM_DOCUMENT_PROPERTY \<mapsto> Val (PStr ''Person''))"
  have i: "pymongo_installed installed"
    by (simp add: installed_def)
  have d: "?p DB_NAME_KEY \<noteq> None"
    by (simp add: person_properties_def key_names_distinct)
  have c: "?p COLLECTION_KEY \<noteq> None"
    by (simp add: person_properties_def key_names_distinct)
  have v: "?p CUSTOM_DOCUMENT_PROPERTY = Some (Val (PStr ''Person''))"
    by simp
  show ?thesis
    using init_invalid_custom_document [OF i d c v] .
qed

section \<open>The default codec\<close>

text \<open>
  Claim C8. Round trip of the default codec: for a custom document type whose constructor
  accepts exactly the keys of a stored document \<open>d\<close> and assigns each keyword argument to
  the field of the same name, the default decoder constructs an object from \<open>d\<close>, and the
  default encoder maps that object back to a dictionary equal to \<open>d\<close>.
\<close>

theorem default_codec_round_trip:
  assumes "custom_doc = Class cls"
    and "constructor cls = keyword_constructor name params"
    and "fmdom d = fset_of_list params"
  shows "\<exists>obj. default_decoder custom_doc (PDict d) = Inr obj \<and> default_encoder obj = Inr (PDict d)"
  using assms
  by (simp add: default_decoder_def default_encoder_def keyword_constructor_def assign_fields_all)

theorem default_codec_round_trip_witness:
  "\<exists>obj. decoder person_node (PDict bob) = Inr obj \<and> encoder person_node obj = Inr (PDict bob)"
proof -
  have c: "constructor person_class = keyword_constructor ''Person'' [''name'', ''age'']"
    by (simp add: person_class_def)
  have d: "fmdom bob = fset_of_list [''name'', ''age'']"
    by (auto simp: bob_def)
  show ?thesis
    using default_codec_round_trip [OF refl c d] by (simp add: person_node_def)
qed

section \<open>Translation of queries\<close>

text \<open>
  Claim C7. The query translator: for \<^verbatim>\<open>None\<close> and for the empty list of conditions the
  store is asked with no filter at all, and the read returns every stored document; a
  condition with one of the six supported operators gives the predicate the specification
  assigns to it; for a non-empty list of such conditions the filter is the \<^verbatim>\<open>$and\<close> of the
  predicates under the join operator AND and their \<^verbatim>\<open>$or\<close> under OR, in the order of the
  conditions; one condition outside a list is translated as the list holding just that
  condition.
\<close>

theorem query_translation:
  "query_of NoOperators j = Inr None
 \<and> query_of (ConditionList []) j = Inr None
 \<and> read_by_query self NoOperators j = Inr (documents (collection self))
 \<and> read_by_query self (ConditionList []) j = Inr (documents (collection self))
 \<and> conditions_loop [(field, v, POperator op)] [] = [comparison_predicate field v op]
 \<and> (cs \<noteq> [] \<longrightarrow>
       query_of (ConditionList (map (\<lambda>(field, v, op). (field, v, POperator op)) cs)) (PJoinOperator AND)
         = Inr (Some (dict1 ''$and'' (PList (map (\<lambda>(field, v, op). comparison_predicate field v op) cs))))
     \<and> query_of (ConditionList (map (\<lambda>(field, v, op). (field, v, POperator op)) cs)) (PJoinOperator OR)
         = Inr (Some (dict1 ''$or'' (PList (map (\<lambda>(field, v, op). comparison_predicate field v op) cs)))))
 \<and> query_of (BareCondition c) j = query_of (ConditionList [c]) j"
proof -
  have p: "concat (map predicates_of (map (\<lambda>(field, v, op). (field, v, POperator op)) cs))
             = map (\<lambda>(field, v, op). comparison_predicate field v op) cs"
    by (induction cs) (auto simp: predicates_of_def)
  have one: "conditions_loop [(field, v, POperator op)] [] = [comparison_predicate field v op]"
    by (simp add: conditions_loop_step predicates_of_def)
  have bare: "query_of (BareCondition c) j = query_of (ConditionList [c]) j"
    by (simp add: query_of_def)
  have lst: "cs \<noteq> [] \<Longrightarrow>
       query_of (ConditionList (map (\<lambda>(field, v, op). (field, v, POperator op)) cs)) (PJoinOperator AND)
         = Inr (Some (dict1 ''$and'' (PList (map (\<lambda>(field, v, op). comparison_predicate field v op) cs))))
     \<and> query_of (ConditionList (map (\<lambda>(field, v, op). (field, v, POperator op)) cs)) (PJoinOperator OR)
         = Inr (Some (dict1 ''$or'' (PList (map (\<lambda>(field, v, op). comparison_predicate field v op) cs))))"
    by (simp add: query_of_def conditions_loop_concat p del: map_map)
  have none: "query_of NoOperators j = Inr None" "query_of (ConditionList []) j = Inr None"
    by (simp_all add: query_of_def)
  show ?thesis
    using none one bare lst read_by_query_no_operators read_by_query_empty_list by blast
qed

theorem query_translation_witness:
  "query_of (ConditionList [(''age'', PInt 30, POperator GREATER_THAN), (''name'', PStr ''Bob'', POperator EQUAL)])
      (PJoinOperator OR)
     = Inr (Some (dict1 ''$or'' (PList [dict1 ''age'' (dict1 ''$gt'' (PInt 30)), dict1 ''name'' (PStr ''Bob'')])))"
proof -
  have n: "[(''age'', PInt 30, GREATER_THAN), (''name'', PStr ''Bob'', EQUAL)] \<noteq> []"
    by simp
  show ?thesis
    using query_translation [of _ _ _ _ _ "[(''age'', PInt 30, GREATER_THAN), (''name'', PStr ''Bob'', EQUAL)]"] n
    by simp
qed

text \<open>
  Claim C10. A condition whose operator is none of the six supported ones is passed over
  by the loop: it adds no predicate and raises nothing. So a non-empty list of conditions
  always translates, under AND and under OR, to the join of the predicates of its supported
  conditions, and a non-empty list without any supported operator translates to \<^verbatim>\<open>$and\<close> or
  \<^verbatim>\<open>$or\<close> over the empty list of predicates.
\<close>

theorem unsupported_operators_ignored:
  "(operator \<notin> set supported_operators \<longrightarrow>
       conditions_loop ((field, v, operator) # rest) acc = conditions_loop rest acc)
 \<and> (cs \<noteq> [] \<longrightarrow>
       query_of (ConditionList cs) (PJoinOperator AND)
         = Inr (Some (dict1 ''$and'' (PList (concat (map predicates_of cs)))))
     \<and> query_of (ConditionList cs) (PJoinOperator OR)
         = Inr (Some (dict1 ''$or'' (PList (concat (map predicates_of cs))))))
 \<and> (cs \<noteq> [] \<and> (\<forall>c \<in> set cs. snd (snd c) \<notin> set supported_operators) \<longrightarrow>
       query_of (ConditionList cs) (PJoinOperator AND) = Inr (Some (dict1 ''$and'' (PList [])))
     \<and> query_of (ConditionList cs) (PJoinOperator OR) = Inr (Some (dict1 ''$or'' (PList []))))"
proof -
  have skip: "operator \<notin> set supported_operators \<Longrightarrow>
       conditions_loop ((field, v, operator) # rest) acc = conditions_loop rest acc"
    by (simp add: supported_operators_def)
  have no_pred: "predicates_of c = []" if "snd (snd c) \<notin> set supported_operators" for c
  proof (cases c)
    case (fields field v operator)
    show ?thesis
    proof (cases operator)
      case (POperator op)
      with that fields show ?thesis
        by (cases op) (simp_all add: supported_operators_def)
    qed (simp_all add: fields predicates_of_def)
  qed
  have q: "cs \<noteq> [] \<Longrightarrow>
       query_of (ConditionList cs) (PJoinOperator AND)
         = Inr (Some (dict1 ''$and'' (PList (concat (map predicates_of cs)))))
     \<and> query_of (ConditionList cs) (PJoinOperator OR)
         = Inr (Some (dict1 ''$or'' (PList (concat (map predicates_of cs)))))"
    by (simp add: query_of_def conditions_loop_concat)
  have e: "concat (map predicates_of cs) = []" if "\<forall>c \<in> set cs. snd (snd c) \<notin> set supported_operators"
    using that by (induction cs) (simp_all add: no_pred)
  show ?thesis
  proof (intro conjI impI)
    assume "operator \<notin> set supported_operators"
    then show "conditions_loop ((field, v, operator) # rest) acc = conditions_loop rest acc"
      by (rule skip)
  next
    assume "cs \<noteq> []"
    then show "query_of (ConditionList cs) (PJoinOperator AND)
                 = Inr (Some (dict1 ''$and'' (PList (concat (map predicates_of cs)))))"
      and "query_of (ConditionList cs) (PJoinOperator OR)
                 = Inr (Some (dict1 ''$or'' (PList (concat (map predicates_of cs)))))"
      using q by simp_all
  next
    assume a: "cs \<noteq> [] \<and> (\<forall>c \<in> set cs. snd (snd c) \<notin> set supported_operators)"
    then have "concat (map predicates_of cs) = []"
      using e by blast
    with a q show "query_of (ConditionList cs) (PJoinOperator AND) = Inr (Some (dict1 ''$and'' (PList [])))"
      and "query_of (ConditionList cs) (PJoinOperator OR) = Inr (Some (dict1 ''$or'' (PList [])))"
      by simp_all
  qed
qed

theorem unsupported_operators_ignored_witness:
  "query_of (ConditionList [(''age'', PInt 30, PStr ''>''), (''name'', PStr ''Bob'', PNone)]) (PJoinOperator AND)
     = Inr (Some (dict1 ''$and'' (PList [])))"
proof -
  let ?cs = "[(''age'', PInt 30, PStr ''>''), (''name'', PStr ''Bob'', PNone)]"
  have h: "?cs \<noteq> [] \<and> (\<forall>c \<in> set ?cs. snd (snd c) \<notin> set supported_operators)"
    by (simp add: supported_operators_def)
  from unsupported_operators_ignored [of _ _ _ _ _ "[(''age'', PInt 30, PStr ''>''), (''name'', PStr ''Bob'', PNone)]"] h
  show ?thesis
    by blast
qed

text \<open>
  Claim C3, as stated, asks for the error whenever the join operator is neither AND nor OR.
  For the empty list of conditions the source returns \<^verbatim>\<open>self.collection.find()\<close> before it
  looks at the join operator: no error, every document.
\<close>

theorem unsupported_join_operator_counterexample:
  "PStr ''XOR'' \<noteq> PJoinOperator AND \<and> PStr ''XOR'' \<noteq> PJoinOperator OR
 \<and> query_of (ConditionList []) (PStr ''XOR'') = Inr None
 \<and> read_by_query person_node (ConditionList []) (PStr ''XOR'') = Inr [PDict ann]"
  by (simp add: query_of_def read_by_query_def find_def person_node_def people_def)

text \<open>
  Claim C3, amended. For every non-empty list of conditions, and for every single condition
  outside a list, a join operator that is neither AND nor OR makes the translation, and with
  it \<^verbatim>\<open>_read_by_query\<close> and \<^verbatim>\<open>filter\<close>, fail with \<^verbatim>\<open>NotImplementedError\<close>.
\<close>

theorem unsupported_join_operator:
  assumes "j \<noteq> PJoinOperator AND" and "j \<noteq> PJoinOperator OR"
    and "ops \<noteq> NoOperators" and "ops \<noteq> ConditionList []"
  shows "query_of ops j = Inl NotImplementedError
       \<and> read_by_query self ops j = Inl NotImplementedError
       \<and> filter_node self ops j = Inl NotImplementedError"
  using assms by (simp add: query_of_def read_by_query_def filter_node_def)

theorem unsupported_join_operator_witness:
  "filter_node person_node (BareCondition (''age'', PInt 30, POperator GREATER_THAN)) (PStr ''XOR'')
     = Inl NotImplementedError"
proof -
  have a: "PStr ''XOR'' \<noteq> PJoinOperator AND" and b: "PStr ''XOR'' \<noteq> PJoinOperator OR"
    by simp_all
  have c: "BareCondition (''age'', PInt 30, POperator GREATER_THAN) \<noteq> NoOperators"
    and d: "BareCondition (''age'', PInt 30, POperator GREATER_THAN) \<noteq> ConditionList []"
    by simp_all
  from unsupported_join_operator [OF a b c d, of person_node]
  show ?thesis by (rule conjunct2 [THEN conjunct2])
qed

section \<open>Writing and appending\<close>

subsection \<open>The store and the instances\<close>

lemma as_list_not_list: "(\<forall>ys. data \<noteq> PList ys) \<Longrightarrow> as_list data = [data]"
  by (cases data) (simp_all add: as_list_def)

lemma as_list_list: "as_list (PList xs) = xs"
  by (simp add: as_list_def)

lemma length_store_documents: "length (store_documents form n ds) = length ds"
  by (induction ds arbitrary: n) simp_all

lemma insert_many_accepted:
  "refusal c (documents c) data = None \<Longrightarrow>
     insert_many c data
       = (Inr (), c\<lparr>documents := documents c @ store_documents (stored_form c) (length (documents c)) data\<rparr>)"
  by (simp add: insert_many_def)

lemma insert_many_refused:
  "refusal c (documents c) data = Some (e, k) \<Longrightarrow>
     insert_many c data
       = (Inl e, c\<lparr>documents := documents c
                      @ take k (store_documents (stored_form c) (length (documents c)) data)\<rparr>)"
  by (simp add: insert_many_def)

lemma insert_many_adds:
  "\<exists>added. documents (snd (insert_many c data)) = documents c @ added"
  by (cases "refusal c (documents c) data") (auto simp: insert_many_def)

lemma insert_many_fields:
  "refusal (snd (insert_many c data)) = refusal c"
  "stored_form (snd (insert_many c data)) = stored_form c"
  "find_query (snd (insert_many c data)) = find_query c"
  by (cases "refusal c (documents c) data"; auto simp: insert_many_def)+

text \<open>
  The data nodes of the instances are the ones construction returns, with the default codec
  for \<^verbatim>\<open>Guest\<close> and with the static method as encoder for its variant.
\<close>

lemma init_guest_node:
  "init (installed\<lparr>mongo_collection := guests\<rparr>)
     (Some (person_properties(CUSTOM_DOCUMENT_PROPERTY \<mapsto> Class guest_class))) = Inr guest_node"
  by (simp add: init_def installed_def person_properties_def guest_node_def
      REQUIRED_PROPERTIES_def key_names_distinct check_custom_document_def
      callable_decode_def callable_encode_def guest_class_def)

lemma init_lenient_node:
  "init (installed\<lparr>mongo_collection := guests\<rparr>)
     (Some (person_properties(CUSTOM_DOCUMENT_PROPERTY \<mapsto> Class lenient_class))) = Inr lenient_node"
  by (simp add: init_def installed_def person_properties_def lenient_node_def
      REQUIRED_PROPERTIES_def key_names_distinct check_custom_document_def
      callable_decode_def callable_encode_def lenient_class_def guest_class_def default_decoder_def)

lemma fmdom_bob: "fmdom bob = {|''age'', ''name''|}"
  by (simp add: bob_def)

lemma fmdom_ann: "fmdom ann = {|''name'', ''age''|}"
  by (simp add: ann_def)

lemma scalar_values: "scalar (PInt 30)" "scalar (PInt 41)" "scalar (PStr s)"
  by (simp_all add: scalar_def)

lemma plain_bob: "plain_document (PDict bob)"
  unfolding plain_document_def bob_def
  by (simp add: fmpred_iff scalar_values split: if_splits)

lemma plain_ann: "plain_document (PDict ann)"
  unfolding plain_document_def ann_def
  by (simp add: fmpred_iff scalar_values split: if_splits)

lemma with_id_bob: "with_id n (PDict bob) = PDict (fmupd ''_id'' (PObjectId n) bob)"
  by (simp add: with_id_def fmdom_bob)

lemma with_id_ann: "with_id n (PDict ann) = PDict (fmupd ''_id'' (PObjectId n) ann)"
  by (simp add: with_id_def fmdom_ann)

lemma identity_of_fmupd: "identity_of (PDict (fmupd ''_id'' i d)) = Some i"
  by (simp add: identity_of_def)

lemma guests_fields:
  "documents guests = [PDict (fmupd ''_id'' (PObjectId 0) ann)]"
  "refusal guests = driver_refusal" "stored_form guests = with_id"
  by (simp_all add: guests_def)

lemma guests_take_pair: "driver_refusal [] [PDict bob, PDict ann] = None"
  by (simp add: driver_refusal_def isinstance_dict_def plain_bob plain_ann with_id_bob with_id_ann
      identity_of_fmupd)

lemma guests_take_bob:
  "driver_refusal [PDict (fmupd ''_id'' (PObjectId 0) ann)] [PDict bob] = None"
  by (simp add: driver_refusal_def isinstance_dict_def plain_bob with_id_bob identity_of_fmupd)

lemma guests_take_pair_behind:
  "driver_refusal [PDict (fmupd ''_id'' (PObjectId 0) ann)] [PDict bob, PDict ann] = None"
  by (simp add: driver_refusal_def isinstance_dict_def plain_bob plain_ann with_id_bob with_id_ann
      identity_of_fmupd)

lemma guests_refuse_object:
  "driver_refusal held [PDict bob, PObject ''Guest'' ann] = Some (TypeError, 0)"
  by (simp add: driver_refusal_def isinstance_dict_def)

lemma assign_fields_restrict:
  "assign_fields ps kwargs fmempty = fmrestrict_fset (fset_of_list ps) kwargs"
  by (rule fmap_ext) (auto simp: fmlookup_assign_fields fset_of_list.rep_eq)

lemma guest_init_stored:
  assumes "fmdom d = {|''name'', ''age''|}"
  shows "guest_init (fmupd ''_id'' i d) = Inr (PObject ''Guest'' d)"
proof -
  have "fmrestrict_fset (fset_of_list [''name'', ''age'']) (fmupd ''_id'' i d) = d"
  proof (rule fmap_ext)
    fix k
    show "fmlookup (fmrestrict_fset (fset_of_list [''name'', ''age'']) (fmupd ''_id'' i d)) k
            = fmlookup d k"
      using assms by (cases "fmlookup d k") (auto dest: fmdomI)
  qed
  with assms show ?thesis
    by (simp add: guest_init_def assign_fields_restrict del: assign_fields.simps)
qed

lemma decoder_guest_node:
  "decoder guest_node (PDict (fmupd ''_id'' i bob)) = Inr (PObject ''Guest'' bob)"
  "decoder guest_node (PDict (fmupd ''_id'' i ann)) = Inr (PObject ''Guest'' ann)"
proof -
  have b: "fmdom bob = {|''name'', ''age''|}"
    by (auto simp: fmdom_bob)
  show "decoder guest_node (PDict (fmupd ''_id'' i bob)) = Inr (PObject ''Guest'' bob)"
    by (simp add: guest_node_def default_decoder_def guest_class_def guest_init_stored [OF b])
  show "decoder guest_node (PDict (fmupd ''_id'' i ann)) = Inr (PObject ''Guest'' ann)"
    by (simp add: guest_node_def default_decoder_def guest_class_def guest_init_stored [OF fmdom_ann])
qed

lemma encoder_guest_node: "encoder guest_node (PObject c d) = Inr (PDict d)"
  by (simp add: guest_node_def default_encoder_def)

subsection \<open>What an exception leaves behind\<close>

text \<open>
  \<^verbatim>\<open>_write\<close> raises in two ways. Either the encoder raises, before the store is touched, and
  the data node is as it was; or the store refuses the batch, after the drop, and the
  collection holds nothing of what it held before, only what the store took of the batch
  (the partial failure of section 7 of the specification). \<^verbatim>\<open>_append\<close> likewise, without
  the drop: the old documents stay.
\<close>

lemma write_node_raises:
  assumes "write_node self data = (Inl e, self')"
  shows "(list_comprehension (encoder self) (as_list data) = Inl e \<and> self' = self)
       \<or> (\<exists>written k.
             refusal (collection self) [] written = Some (e, k)
           \<and> documents (collection self')
               = take k (store_documents (stored_form (collection self)) 0 written))"
proof -
  have d: "\<exists>k. refusal (collection self) [] written = Some (e, k)
           \<and> documents (collection self')
               = take k (store_documents (stored_form (collection self)) 0 written)"
    if "insert_dicts self written True = (Inl e, self')" for written
  proof (cases "refusal (collection self) [] written")
    case None
    with that show ?thesis
      by (simp add: insert_dicts_def insert_many_def drop_collection_def)
  next
    case (Some p)
    with that show ?thesis
      by (cases p) (auto simp: insert_dicts_def insert_many_def drop_collection_def)
  qed
  show ?thesis
  proof (cases "as_list data = []")
    case True
    with assms show ?thesis by (simp add: write_node_def)
  next
    case False
    show ?thesis
    proof (cases "isinstance_dict (hd (as_list data))")
      case True
      with False assms have "insert_dicts self (as_list data) True = (Inl e, self')"
        by (simp add: write_node_def)
      from d [OF this] show ?thesis by blast
    next
      case nd: False
      show ?thesis
      proof (cases "list_comprehension (encoder self) (as_list data)")
        case (Inl e')
        with False nd assms show ?thesis by (simp add: write_node_def)
      next
        case (Inr encoded)
        with False nd assms have "insert_dicts self encoded True = (Inl e, self')"
          by (simp add: write_node_def)
        from d [OF this] show ?thesis by blast
      qed
    qed
  qed
qed

lemma append_node_raises:
  assumes "append_node self data = (Inl e, self')"
  shows "(list_comprehension (encoder self) (as_list data) = Inl e \<and> self' = self)
       \<or> (\<exists>written k.
             refusal (collection self) (documents (collection self)) written = Some (e, k)
           \<and> documents (collection self')
               = documents (collection self)
                 @ take k (store_documents (stored_form (collection self))
                             (length (documents (collection self))) written))"
proof -
  have d: "\<exists>k. refusal (collection self) (documents (collection self)) written = Some (e, k)
           \<and> documents (collection self')
               = documents (collection self)
                 @ take k (store_documents (stored_form (collection self))
                             (length (documents (collection self))) written)"
    if "insert_dicts self written False = (Inl e, self')" for written
  proof (cases "refusal (collection self) (documents (collection self)) written")
    case None
    with that show ?thesis
      by (simp add: insert_dicts_def insert_many_def Let_def)
  next
    case (Some p)
    with that show ?thesis
      by (cases p) (auto simp: insert_dicts_def insert_many_def Let_def)
  qed
  show ?thesis
  proof (cases "as_list data = []")
    case True
    with assms show ?thesis by (simp add: append_node_def)
  next
    case False
    show ?thesis
    proof (cases "isinstance_dict (hd (as_list data))")
      case True
      with False assms have "insert_dicts self (as_list data) False = (Inl e, self')"
        by (simp add: append_node_def)
      from d [OF this] show ?thesis by blast
    next
      case nd: False
      show ?thesis
      proof (cases "list_comprehension (encoder self) (as_list data)")
        case (Inl e')
        with False nd assms show ?thesis by (simp add: append_node_def)
      next
        case (Inr encoded)
        with False nd assms have "insert_dicts self encoded False = (Inl e, self')"
          by (simp add: append_node_def)
        from d [OF this] show ?thesis by blast
      qed
    qed
  qed
qed

text \<open>The test that decides between the two branches looks at the first element only.\<close>

lemma first_element_guard:
  assumes "xs \<noteq> []" and "isinstance_dict (hd xs)"
  shows "append_node self (PList xs) = insert_dicts self xs False"
    and "write_node self (PList xs) = insert_dicts self xs True"
  using assms by (simp_all add: append_node_def write_node_def as_list_list)

subsection \<open>The claims\<close>

text \<open>
  Claim C1. \<^verbatim>\<open>_write\<close>: an argument that is not a list is treated as the list holding
  just that argument; for the empty list the collection is dropped and the call returns, and
  a following \<^verbatim>\<open>_read\<close> returns the empty list; for a non-empty list whose elements are
  taken as they are (the first is a dictionary) or have all been encoded, and which the
  emptied store takes, the call returns, the collection then holds exactly the stored forms
  of these documents, nothing of what it held before, and a following \<^verbatim>\<open>_read\<close> is the
  decoder applied to each of them in turn.
\<close>

theorem write_node_overwrites:
  "((\<forall>ys. data \<noteq> PList ys) \<longrightarrow> write_node self data = write_node self (PList [data]))
 \<and> (\<exists>self'. write_node self (PList []) = (Inr (), self')
        \<and> documents (collection self') = [] \<and> read_node self' = Inr [])
 \<and> (xs \<noteq> []
      \<and> (if isinstance_dict (hd xs) then Inr xs else list_comprehension (encoder self) xs) = Inr written
      \<and> refusal (collection self) [] written = None
      \<longrightarrow> (\<exists>self'. write_node self (PList xs) = (Inr (), self')
             \<and> documents (collection self') = store_documents (stored_form (collection self)) 0 written
             \<and> read_node self'
                 = list_comprehension (decoder self)
                     (store_documents (stored_form (collection self)) 0 written)))"
proof (intro conjI impI)
  assume "\<forall>ys. data \<noteq> PList ys"
  then show "write_node self data = write_node self (PList [data])"
    by (simp add: write_node_def as_list_not_list as_list_list)
next
  show "\<exists>self'. write_node self (PList []) = (Inr (), self')
        \<and> documents (collection self') = [] \<and> read_node self' = Inr []"
    by (simp add: write_node_def as_list_list drop_collection_def read_node_documents)
next
  assume a: "xs \<noteq> []
      \<and> (if isinstance_dict (hd xs) then Inr xs else list_comprehension (encoder self) xs) = Inr written
      \<and> refusal (collection self) [] written = None"
  let ?c = "drop_collection (collection self)"
  have r: "refusal ?c (documents ?c) written = None"
    using a by (simp add: drop_collection_def)
  have i: "insert_dicts self written True
      = (Inr (), self\<lparr>collection := ?c\<lparr>documents := store_documents (stored_form (collection self)) 0 written\<rparr>\<rparr>)"
    using insert_many_accepted [OF r] by (simp add: insert_dicts_def drop_collection_def)
  have "write_node self (PList xs) = insert_dicts self written True"
    using a by (auto simp: write_node_def as_list_list split: if_splits)
  with i show "\<exists>self'. write_node self (PList xs) = (Inr (), self')
             \<and> documents (collection self') = store_documents (stored_form (collection self)) 0 written
             \<and> read_node self'
                 = list_comprehension (decoder self)
                     (store_documents (stored_form (collection self)) 0 written)"
    by (simp add: read_node_documents)
qed

theorem write_node_overwrites_witness:
  "\<exists>self'. write_node guest_node (PList [PObject ''Guest'' bob, PObject ''Guest'' ann]) = (Inr (), self')
      \<and> documents (collection self')
          = [PDict (fmupd ''_id'' (PObjectId 0) bob), PDict (fmupd ''_id'' (PObjectId 1) ann)]
      \<and> read_node self' = Inr [PObject ''Guest'' bob, PObject ''Guest'' ann]"
proof -
  let ?xs = "[PObject ''Guest'' bob, PObject ''Guest'' ann]"
  let ?written = "[PDict bob, PDict ann]"
  have h: "?xs \<noteq> []
      \<and> (if isinstance_dict (hd ?xs) then Inr ?xs
          else list_comprehension (encoder guest_node) ?xs) = Inr ?written
      \<and> refusal (collection guest_node) [] ?written = None"
    by (simp add: isinstance_dict_def encoder_guest_node)
       (simp add: guest_node_def guests_fields guests_take_pair)
  have s: "store_documents (stored_form (collection guest_node)) 0 ?written
             = [PDict (fmupd ''_id'' (PObjectId 0) bob), PDict (fmupd ''_id'' (PObjectId 1) ann)]"
    by (simp add: guest_node_def guests_fields with_id_bob with_id_ann)
  have d: "list_comprehension (decoder guest_node)
             [PDict (fmupd ''_id'' (PObjectId 0) bob), PDict (fmupd ''_id'' (PObjectId 1) ann)]
             = Inr ?xs"
    by (simp add: decoder_guest_node)
  from write_node_overwrites [of _ guest_node "[PObject ''Guest'' bob, PObject ''Guest'' ann]"
      "[PDict bob, PDict ann]"] h
  have "\<exists>self'. write_node guest_node (PList ?xs) = (Inr (), self')
      \<and> documents (collection self') = store_documents (stored_form (collection guest_node)) 0 ?written
      \<and> read_node self'
          = list_comprehension (decoder guest_node)
              (store_documents (stored_form (collection guest_node)) 0 ?written)"
    by blast
  then show ?thesis
    unfolding s d .
qed

text \<open>
  Claim C9. \<^verbatim>\<open>_append\<close> removes nothing: for the empty list it returns with the data node
  unchanged; for every argument, whatever the outcome of the call, the documents held
  before are still there, in front of what was added; and appending the list of one element
  \<open>x\<close> that is a dictionary or is encoded to a document, which the store takes, puts the
  stored form of exactly that one document behind the old ones, so that the collection
  grows by one.
\<close>

theorem append_node_keeps_documents:
  "append_node self (PList []) = (Inr (), self)
 \<and> (\<exists>added. documents (collection (snd (append_node self data))) = documents (collection self) @ added)
 \<and> ((if isinstance_dict x then Inr x else encoder self x) = Inr doc
      \<and> refusal (collection self) (documents (collection self)) [doc] = None
      \<longrightarrow> (\<exists>self'. append_node self (PList [x]) = (Inr (), self')
             \<and> documents (collection self')
                 = documents (collection self)
                   @ [stored_form (collection self) (length (documents (collection self))) doc]
             \<and> length (documents (collection self')) = length (documents (collection self)) + 1))"
proof (intro conjI impI)
  show "append_node self (PList []) = (Inr (), self)"
    by (simp add: append_node_def as_list_list)
next
  have i: "\<exists>added. documents (collection (snd (insert_dicts self ds False)))
             = documents (collection self) @ added" for ds
    using insert_many_adds [of "collection self" ds]
    by (cases "insert_many (collection self) ds") (simp add: insert_dicts_def)
  show "\<exists>added. documents (collection (snd (append_node self data))) = documents (collection self) @ added"
    by (auto simp: append_node_def Let_def i split: sum.splits)
next
  assume a: "(if isinstance_dict x then Inr x else encoder self x) = Inr doc
      \<and> refusal (collection self) (documents (collection self)) [doc] = None"
  then have r: "refusal (collection self) (documents (collection self)) [doc] = None"
    by simp
  have "append_node self (PList [x]) = insert_dicts self [doc] False"
    using a by (auto simp: append_node_def as_list_list split: if_splits sum.splits)
  then show "\<exists>self'. append_node self (PList [x]) = (Inr (), self')
             \<and> documents (collection self')
                 = documents (collection self)
                   @ [stored_form (collection self) (length (documents (collection self))) doc]
             \<and> length (documents (collection self')) = length (documents (collection self)) + 1"
    using insert_many_accepted [OF r] by (simp add: insert_dicts_def)
qed

theorem append_node_keeps_documents_witness:
  "\<exists>self'. append_node guest_node (PList [PObject ''Guest'' bob]) = (Inr (), self')
      \<and> documents (collection self')
          = [PDict (fmupd ''_id'' (PObjectId 0) ann), PDict (fmupd ''_id'' (PObjectId 1) bob)]
      \<and> length (documents (collection self')) = length (documents (collection guest_node)) + 1"
proof -
  have c: "documents (collection guest_node) = [PDict (fmupd ''_id'' (PObjectId 0) ann)]"
    by (simp add: guest_node_def guests_fields)
  have h: "(if isinstance_dict (PObject ''Guest'' bob) then Inr (PObject ''Guest'' bob)
            else encoder guest_node (PObject ''Guest'' bob)) = Inr (PDict bob)
      \<and> refusal (collection guest_node) (documents (collection guest_node)) [PDict bob] = None"
    by (simp add: isinstance_dict_def encoder_guest_node c)
       (simp add: guest_node_def guests_fields guests_take_bob)
  have s: "documents (collection guest_node)
             @ [stored_form (collection guest_node) (length (documents (collection guest_node))) (PDict bob)]
           = [PDict (fmupd ''_id'' (PObjectId 0) ann), PDict (fmupd ''_id'' (PObjectId 1) bob)]"
    by (simp add: c) (simp add: guest_node_def guests_fields with_id_bob)
  from append_node_keeps_documents [of guest_node _ "PObject ''Guest'' bob" "PDict bob"] h
  have "\<exists>self'. append_node guest_node (PList [PObject ''Guest'' bob]) = (Inr (), self')
      \<and> documents (collection self')
          = documents (collection guest_node)
            @ [stored_form (collection guest_node) (length (documents (collection guest_node))) (PDict bob)]
      \<and> length (documents (collection self')) = length (documents (collection guest_node)) + 1"
    by blast
  then show ?thesis
    unfolding s .
qed

text \<open>
  Claim C2, at the list of a dictionary followed by a \<^verbatim>\<open>Guest\<close> object, on the data node
  whose encoder accepts both. Not every element is a dictionary; encoding every element
  gives two dictionaries, which the store would take, behind the document it holds or
  after a drop. \<^verbatim>\<open>_append\<close> and \<^verbatim>\<open>_write\<close> test the first element only and hand the list to
  the store as it is, the object included: the store raises \<^verbatim>\<open>TypeError\<close>, \<^verbatim>\<open>_append\<close> has
  inserted nothing, and \<^verbatim>\<open>_write\<close> has dropped the collection and leaves it empty.
\<close>

theorem mixed_list_reaches_store_unencoded:
  "\<not> isinstance_dict (PObject ''Guest'' ann)
 \<and> list_comprehension (encoder lenient_node) [PDict bob, PObject ''Guest'' ann] = Inr [PDict bob, PDict ann]
 \<and> refusal (collection lenient_node) (documents (collection lenient_node)) [PDict bob, PDict ann] = None
 \<and> refusal (collection lenient_node) [] [PDict bob, PDict ann] = None
 \<and> append_node lenient_node (PList [PDict bob, PObject ''Guest'' ann]) = (Inl TypeError, lenient_node)
 \<and> write_node lenient_node (PList [PDict bob, PObject ''Guest'' ann])
     = (Inl TypeError, lenient_node\<lparr>collection := guests\<lparr>documents := []\<rparr>\<rparr>)"
proof (intro conjI)
  show "\<not> isinstance_dict (PObject ''Guest'' ann)"
    by (simp add: isinstance_dict_def)
  show "list_comprehension (encoder lenient_node) [PDict bob, PObject ''Guest'' ann]
          = Inr [PDict bob, PDict ann]"
    by (simp add: lenient_node_def lenient_encode_def isinstance_dict_def default_encoder_def)
  show "refusal (collection lenient_node) (documents (collection lenient_node)) [PDict bob, PDict ann] = None"
    by (simp add: lenient_node_def guests_fields guests_take_pair_behind)
  show "refusal (collection lenient_node) [] [PDict bob, PDict ann] = None"
    by (simp add: lenient_node_def guests_fields guests_take_pair)
  have g: "isinstance_dict (hd [PDict bob, PObject ''Guest'' ann])"
    by (simp add: isinstance_dict_def)
  have r: "refusal guests held [PDict bob, PObject ''Guest'' ann] = Some (TypeError, 0)" for held
    by (simp add: guests_fields guests_refuse_object)
  have c: "collection lenient_node = guests"
    by (simp add: lenient_node_def)
  show "append_node lenient_node (PList [PDict bob, PObject ''Guest'' ann]) = (Inl TypeError, lenient_node)"
    using g by (simp add: append_node_def as_list_list insert_dicts_def insert_many_def c r)
  show "write_node lenient_node (PList [PDict bob, PObject ''Guest'' ann])
     = (Inl TypeError, lenient_node\<lparr>collection := guests\<lparr>documents := []\<rparr>\<rparr>)"
    using g by (simp add: write_node_def as_list_list insert_dicts_def insert_many_def c
        drop_collection_def r)
qed

end
